theory Spec2Isabelle
  imports Complex_Main "HOL-Library.Log_Nat"
begin

section \<open>Python errors\<close>

text \<open>
  The exceptions of the Python sources that the model keeps as values. A function that can
  raise returns \<open>py_error + 'a\<close>, with \<open>Inl\<close> the raised exception.
\<close>

datatype py_error =
    ValueError
  | IndexError
  | AttributeError
  | UnicodeDecodeError
  | ValueOutOfBounds
  | OverflowError
  | RpcError
  | RequestException

section \<open>Python numbers\<close>

text \<open>
  Python's \<open>float\<close> is IEEE 754 binary64 and its arithmetic rounds every result to the
  nearest representable value, ties to even. The model keeps a float as the rational it
  denotes and rounds after each operation. \<open>round_half_even\<close> is also Python's
  \<open>round(x)\<close> of a float to an \<open>int\<close>.
\<close>

definition round_half_even :: "rat \<Rightarrow> int" where
  "round_half_even x =
     (let f = \<lfloor>x\<rfloor>; r = x - of_int f
      in if r < 1 / 2 then f else if 1 / 2 < r then f + 1 else if even f then f else f + 1)"

text \<open>\<open>ilog2 x\<close> is the binary exponent of a positive \<open>x\<close>: \<open>2 powi ilog2 x \<le> x < 2 powi (ilog2 x + 1)\<close>.\<close>

definition ilog2 :: "rat \<Rightarrow> int" where
  "ilog2 x = (case quotient_of x of (p, q) \<Rightarrow>
      let d = bitlen p - bitlen q in if x < 2 powi d then d - 1 else d)"

text \<open>
  \<open>fl x\<close> rounds \<open>x\<close> to 53 significant bits, ties to even: the binary64 value nearest to
  \<open>x\<close> whenever \<open>x\<close> is 0 or of magnitude within the normal range
  \<open>2 powi (-1022) \<le> \<bar>x\<bar> < 2 powi 1024\<close>. Prices, nominal values and uint160 quotients
  stay far inside this range, so overflow and subnormal numbers are not modelled.
\<close>

definition fl :: "rat \<Rightarrow> rat" where
  "fl x = (if x = 0 then 0
           else let e = ilog2 \<bar>x\<bar> - 52 in of_int (round_half_even (x / 2 powi e)) * 2 powi e)"

text \<open>Float multiplication \<open>a * b\<close> and division \<open>a / b\<close>; \<open>int / int\<close> is also correctly rounded.\<close>

definition fmul :: "rat \<Rightarrow> rat \<Rightarrow> rat" where
  "fmul a b = fl (a * b)"

definition fdiv :: "rat \<Rightarrow> rat \<Rightarrow> rat" where
  "fdiv a b = fl (a / b)"

section \<open>Bytes and hexadecimal text\<close>

text \<open>
  \<open>bytes.fromhex\<close>: ASCII whitespace is skipped before each pair of hexadecimal digits;
  anything else raises \<open>ValueError\<close>. A byte is kept as an integer from 0 to 255.
\<close>

definition hex_val :: "char \<Rightarrow> int option" where
  "hex_val c =
     (let n = of_char c :: int in
      if 48 \<le> n \<and> n \<le> 57 then Some (n - 48)
      else if 97 \<le> n \<and> n \<le> 102 then Some (n - 87)
      else if 65 \<le> n \<and> n \<le> 70 then Some (n - 55)
      else None)"

definition is_space :: "char \<Rightarrow> bool" where
  "is_space c = ((of_char c :: int) \<in> {9, 10, 11, 12, 13, 32})"

fun fromhex :: "string \<Rightarrow> py_error + int list" where
  "fromhex [] = Inr []"
| "fromhex [c] = (if is_space c then Inr [] else Inl ValueError)"
| "fromhex (c # d # cs) =
     (if is_space c then fromhex (d # cs)
      else (case (hex_val c, hex_val d) of
              (Some h, Some l) \<Rightarrow>
                (case fromhex cs of Inl e \<Rightarrow> Inl e | Inr bs \<Rightarrow> Inr ((16 * h + l) # bs))
            | _ \<Rightarrow> Inl ValueError))"

text \<open>\<open>bytes.hex()\<close>: two lower-case hexadecimal digits for each byte.\<close>

definition hex_digit :: "int \<Rightarrow> char" where
  "hex_digit d = ''0123456789abcdef'' ! nat (d mod 16)"

definition hex_of_bytes :: "int list \<Rightarrow> string" where
  "hex_of_bytes bs = concat (map (\<lambda>b. [hex_digit (b div 16), hex_digit b]) bs)"

text \<open>\<open>n.to_bytes(32, byteorder='big')\<close>, for \<open>n\<close> below \<open>2 ^ 256\<close>.\<close>

fun be_bytes :: "nat \<Rightarrow> int \<Rightarrow> int list" where
  "be_bytes 0 n = []"
| "be_bytes (Suc k) n = be_bytes k (n div 256) @ [n mod 256]"

definition be_bytes32 :: "int \<Rightarrow> int list" where
  "be_bytes32 n = be_bytes 32 n"

text \<open>\<open>s.encode('utf-8')\<close>: a \<open>string\<close> is kept as the bytes of its UTF-8 text.\<close>

definition bytes_of_text :: "string \<Rightarrow> int list" where
  "bytes_of_text s = map of_char s"

section \<open>NonceStore: \<open>nonce_manager.py\<close>\<close>

text \<open>
  What \<open>_load_nonce\<close> can find at the nonce path. \<open>open(path, 'r')\<close> followed by
  \<open>json.load\<close> has these outcomes:
  \<^item> \<open>NoFile\<close>: \<open>os.path.exists\<close> is false;
  \<^item> \<open>Unopenable\<close>: opening or reading raises \<open>IOError\<close>;
  \<^item> \<open>NotText\<close>: the bytes are not valid text in the default encoding, reading raises
    \<open>UnicodeDecodeError\<close> (a \<open>ValueError\<close>, neither \<open>JSONDecodeError\<close> nor \<open>IOError\<close>);
  \<^item> \<open>NotJson\<close>: the text is not JSON, \<open>json.load\<close> raises \<open>JSONDecodeError\<close>;
  \<^item> \<open>JsonNonObject\<close>: a JSON document that is not an object, so \<open>data.get\<close> raises
    \<open>AttributeError\<close>;
  \<^item> \<open>JsonObject m\<close>: a JSON object, \<open>m\<close> its integer \<open>"nonce"\<close> member if it has one.
\<close>

datatype nonce_file =
    NoFile
  | Unopenable
  | NotText
  | NotJson
  | JsonNonObject
  | JsonObject "int option"

text \<open>
  The operations a save performs on the file system, in order: \<open>OpenTruncate p\<close> is
  \<open>open(p, 'w')\<close>, \<open>WriteDoc p n\<close> is \<open>json.dump({"nonce": n}, f, indent=2)\<close> into the
  file opened at \<open>p\<close>. \<open>Fsync\<close> and \<open>Rename\<close> are the operations of a write-rename
  discipline.
\<close>

datatype fs_op =
    OpenTruncate string
  | WriteDoc string int
  | Fsync string
  | Rename string string

text \<open>
  The file system as the nonce manager sees it: the state of each path, whether a path can
  be opened for writing, and the log of the operations performed so far.
\<close>

record filesys =
  files :: "string \<Rightarrow> nonce_file"
  writable :: "string \<Rightarrow> bool"
  oplog :: "fs_op list"

record NonceManager =
  nonce_file_path :: string
  current_nonce :: int

text \<open>
  \<open>_save_nonce\<close>: \<open>open(self.nonce_file_path, 'w')\<close> and \<open>json.dump\<close>; an \<open>IOError\<close>
  is logged and swallowed, the file then stays as it was.
\<close>

definition save_nonce :: "NonceManager \<Rightarrow> filesys \<Rightarrow> filesys" where
  "save_nonce self fs =
     (let p = nonce_file_path self in
      if writable fs p
      then fs\<lparr>files := (files fs)(p := JsonObject (Some (current_nonce self))),
              oplog := oplog fs @ [OpenTruncate p, WriteDoc p (current_nonce self)]\<rparr>
      else fs)"



text \<open>\<open>get_next_nonce\<close>: increment, save, return the new value.\<close>

definition get_next_nonce :: "NonceManager \<Rightarrow> filesys \<Rightarrow> int \<times> NonceManager \<times> filesys" where
  "get_next_nonce self fs =
     (let self' = self\<lparr>current_nonce := current_nonce self + 1\<rparr>;
          fs' = save_nonce self' fs
      in (current_nonce self', self', fs'))"

text \<open>\<open>k\<close> successive calls of \<open>get_next_nonce\<close>, with the nonces they return in order.\<close>

fun next_calls :: "nat \<Rightarrow> NonceManager \<Rightarrow> filesys \<Rightarrow> int list \<times> NonceManager \<times> filesys" where
  "next_calls 0 self fs = ([], self, fs)"
| "next_calls (Suc k) self fs =
     (case get_next_nonce self fs of
        (n, self', fs') \<Rightarrow>
          (case next_calls k self' fs' of (ns, self'', fs'') \<Rightarrow> (n # ns, self'', fs'')))"


text \<open>An empty file system where every path can be written, and damage to one file.\<close>

definition fs0 :: filesys where
  "fs0 = \<lparr>files = (\<lambda>p. NoFile), writable = (\<lambda>p. True), oplog = []\<rparr>"


section \<open>PriceCache: \<open>cache_manager.py\<close>\<close>

text \<open>
  What \<open>open(self.cache_file, 'r')\<close> followed by \<open>json.load\<close> gives on an existing
  cache file: an \<open>IOError\<close>, a \<open>UnicodeDecodeError\<close> (bytes that are not text in the
  default encoding), a \<open>JSONDecodeError\<close>, or the parsed document.
\<close>

datatype 'a read_outcome =
    ReadIOError
  | ReadNotText
  | ReadNotJson
  | ReadJson 'a

text \<open>The cache file: absent, or present with its modification time and its content.\<close>

datatype 'a cache_file =
    CacheAbsent
  | CacheFile rat "'a read_outcome"

text \<open>
  \<open>get_cached_data\<close>, with \<open>ttl\<close> the \<open>ttl_seconds\<close> of the manager and \<open>now\<close> the
  value of \<open>time.time()\<close>. The handler \<open>except (json.JSONDecodeError, IOError)\<close> returns
  \<open>None\<close>; \<open>UnicodeDecodeError\<close> is a \<open>ValueError\<close> that is neither of the two, so it
  leaves the function. (Two clock readings a few seconds apart are subtracted without
  rounding error, so the subtraction is the exact one.)
\<close>

definition get_cached_data :: "int \<Rightarrow> rat \<Rightarrow> 'a cache_file \<Rightarrow> py_error + 'a option" where
  "get_cached_data ttl now cf =
     (case cf of
        CacheAbsent \<Rightarrow> Inr None
      | CacheFile file_mod_time content \<Rightarrow>
          if now - file_mod_time > of_int ttl then Inr None
          else (case content of
                  ReadJson d \<Rightarrow> Inr (Some d)
                | ReadNotJson \<Rightarrow> Inr None
                | ReadIOError \<Rightarrow> Inr None
                | ReadNotText \<Rightarrow> Inl UnicodeDecodeError))"

section \<open>PriceResolver: \<open>get_ofz_prices.py\<close>\<close>

text \<open>
  The \<open>marketdata\<close> block of the exchange's answer: the column names and the rows; a cell
  is a number or null.
\<close>

record marketdata =
  columns :: "string list"
  rows :: "rat option list list"

text \<open>
  What the exchange answers for one instrument: \<open>initialPrice\<close> is the value
  \<open>get_bond_details(secid).get("initialPrice")\<close> (a number, or \<open>None\<close>), \<open>market\<close> the
  market snapshot, and \<open>candles\<close> the \<open>(begin, close)\<close> rows of the daily candles of the
  last 7 days, oldest first.
\<close>

record exchange =
  initialPrice :: "rat option"
  market :: marketdata
  candles :: "(string \<times> rat) list"

definition price_fields :: "string list" where
  "price_fields =
     [''MARKETPRICE'', ''LAST'', ''LCLOSEPRICE'', ''WAPRICE'', ''PREVWAPRICE'', ''CLOSEPRICE'']"

text \<open>\<open>cols.index(field)\<close>, used where \<open>field in cols\<close>.\<close>

fun index_of :: "'a list \<Rightarrow> 'a \<Rightarrow> nat" where
  "index_of [] x = 0"
| "index_of (y # ys) x = (if y = x then 0 else Suc (index_of ys x))"

text \<open>
  \<open>data[cols.index(field)] if field in cols else None\<close>; a row shorter than the column
  list raises \<open>IndexError\<close>.
\<close>

definition cell :: "string list \<Rightarrow> rat option list \<Rightarrow> string \<Rightarrow> py_error + rat option" where
  "cell cols row field =
     (if field \<in> set cols
      then (let i = index_of cols field in if i < length row then Inr (row ! i) else Inl IndexError)
      else Inr None)"

text \<open>The dictionary comprehension that builds \<open>price_data\<close>, field by field.\<close>

fun build_price_data ::
    "string list \<Rightarrow> rat option list \<Rightarrow> string list \<Rightarrow> py_error + (string \<times> rat option) list" where
  "build_price_data cols row [] = Inr []"
| "build_price_data cols row (f # fs) =
     (case cell cols row f of
        Inl e \<Rightarrow> Inl e
      | Inr v \<Rightarrow>
          (case build_price_data cols row fs of
             Inl e \<Rightarrow> Inl e
           | Inr pd \<Rightarrow> Inr ((f, v) # pd)))"

text \<open>The loop over the fields in priority order: the first that is not \<open>None\<close> wins.\<close>

fun scan_fields :: "(string \<times> rat option) list \<Rightarrow> string list \<Rightarrow> rat option \<times> string option" where
  "scan_fields price_data [] = (None, None)"
| "scan_fields price_data (f # fs) =
     (case map_of price_data f of
        Some (Some v) \<Rightarrow> (Some v, Some f)
      | _ \<Rightarrow> scan_fields price_data fs)"

text \<open>\<open>market_prices\<close>: \<open>js["data"][0]\<close> raises \<open>IndexError\<close> when there is no row.\<close>

definition market_prices :: "marketdata \<Rightarrow> py_error + (rat option \<times> string option)" where
  "market_prices js =
     (case rows js of
        [] \<Rightarrow> Inl IndexError
      | row # _ \<Rightarrow>
          (case build_price_data (columns js) row price_fields of
             Inl e \<Rightarrow> Inl e
           | Inr price_data \<Rightarrow> Inr (scan_fields price_data price_fields)))"

text \<open>The dictionary \<open>get_price_detailed\<close> returns.\<close>

record price_info =
  price :: "rat option"
  price_percentage :: "rat option"
  priceSource :: "string option"
  nominal :: rat

text \<open>
  \<open>get_price_detailed\<close>. \<open>float(x)\<close> is \<open>fl x\<close>; the absolute price is
  \<open>(float(price_percentage) * nominal) / 100.0\<close>, two float operations.
\<close>

definition get_price_detailed :: "exchange \<Rightarrow> py_error + price_info" where
  "get_price_detailed ex =
     (let nominal0 = initialPrice ex;
          nom = (case nominal0 of None \<Rightarrow> 100 | Some n \<Rightarrow> if n \<le> 0 then 100 else n);
          result = \<lparr>price = None, price_percentage = None, priceSource = None, nominal = nom\<rparr>
      in case market_prices (market ex) of
           Inl e \<Rightarrow> Inl e
         | Inr (Some pp, price_source) \<Rightarrow>
             Inr (result\<lparr>price := Some (fdiv (fmul (fl pp) nom) 100),
                         price_percentage := Some (fl pp),
                         priceSource := price_source\<rparr>)
         | Inr (None, price_source) \<Rightarrow>
             (if candles ex \<noteq> []
              then (let pp = fl (snd (last (candles ex)))
                    in Inr (result\<lparr>price := Some (fdiv (fmul pp nom) 100),
                                    price_percentage := Some pp,
                                    priceSource := Some ''candle''\<rparr>))
              else Inr result))"

text \<open>\<open>get_price\<close>: the \<open>price\<close> member and the current-market flag.\<close>

definition get_price :: "exchange \<Rightarrow> py_error + (rat option \<times> bool)" where
  "get_price ex =
     (case get_price_detailed ex of
        Inl e \<Rightarrow> Inl e
      | Inr info \<Rightarrow>
          Inr (price info,
               (if price info \<noteq> None then priceSource info \<noteq> Some ''candle'' else False)))"

text \<open>
  The claim's words, for comparison: the value of a field in the first row of the snapshot,
  and the first value that is not null in the fixed priority order.
\<close>

definition snapshot_value :: "marketdata \<Rightarrow> string \<Rightarrow> rat option" where
  "snapshot_value js field =
     (if field \<in> set (columns js) then hd (rows js) ! index_of (columns js) field else None)"

definition first_non_null :: "marketdata \<Rightarrow> rat option" where
  "first_non_null js =
     (case List.find (\<lambda>f. snapshot_value js f \<noteq> None) price_fields of
        None \<Rightarrow> None
      | Some f \<Rightarrow> snapshot_value js f)"

text \<open>The absolute price the code derives from a percentage of the nominal value.\<close>

definition absolute_price :: "rat option \<Rightarrow> rat \<Rightarrow> rat" where
  "absolute_price nominal0 pp =
     fdiv (fmul (fl pp) (case nominal0 of None \<Rightarrow> 100 | Some n \<Rightarrow> if n \<le> 0 then 100 else n)) 100"

text \<open>
  Two answers of the exchange. In \<open>ex_market\<close> the bond has a nominal value of 1000 and the
  snapshot quotes \<open>MARKETPRICE = 97.125\<close> and \<open>LAST = 97\<close>. In \<open>ex_candle\<close> the nominal
  value is unknown, all six price fields are null and the last daily candle closed at 96.5.
\<close>

definition ex_market :: exchange where
  "ex_market = \<lparr>initialPrice = Some 1000,
                market = \<lparr>columns = [''SECID'', ''LAST'', ''MARKETPRICE''],
                          rows = [[None, Some 97, Some (777 / 8)]]\<rparr>,
                candles = []\<rparr>"

definition ex_candle :: exchange where
  "ex_candle = \<lparr>initialPrice = None,
                market = \<lparr>columns = [''MARKETPRICE'', ''LAST'', ''LCLOSEPRICE'', ''WAPRICE'',
                                     ''PREVWAPRICE'', ''CLOSEPRICE''],
                          rows = [[None, None, None, None, None, None]]\<rparr>,
                candles = [(''2025-06-02'', 96), (''2025-06-03'', 193 / 2)]\<rparr>"

section \<open>Signer: \<open>signature_utils.py\<close>\<close>

text \<open>The provider's \<open>Config\<close>; \<open>private_key_hex\<close> is what \<open>Config.get_private_key()\<close> returns.\<close>

record provider_config =
  PRICE_SCALING_FACTOR :: int
  CACHE_TTL :: int
  CHAIN_ID :: int
  BOND_ORACLE_ADDRESS :: string
  SIGNATURE_EXPIRY_SECONDS :: int
  private_key_hex :: string

text \<open>
  The two cryptographic primitives come from libraries (\<open>web3\<close>, \<open>eth_keys\<close>) and are
  parameters of the model: \<open>keccak\<close> is Keccak-256 on bytes, and \<open>sign_msg_hash key h\<close> is
  the \<open>(r, s, v)\<close> of the secp256k1 signature of the hash \<open>h\<close> under the private key
  \<open>key\<close>.
\<close>

record crypto =
  keccak :: "int list \<Rightarrow> int list"
  sign_msg_hash :: "int list \<Rightarrow> int list \<Rightarrow> int \<times> int \<times> int"

text \<open>
  The values \<open>eth_abi.encode\<close> is given here, all of static type: \<open>bytes32\<close>,
  \<open>uint<bits>\<close> and \<open>address\<close> (as its 20 bytes).
\<close>

datatype abi_value =
    Bytes32 "int list"
  | Uint nat int
  | Address "int list"

text \<open>
  One value as its 32-byte word: \<open>bytes32\<close> is padded on the right, an unsigned integer
  is big-endian and must fit its type, an address is padded on the left.
\<close>

definition encode_single :: "abi_value \<Rightarrow> py_error + int list" where
  "encode_single a =
     (case a of
        Bytes32 bs \<Rightarrow>
          if length bs \<le> 32 then Inr (bs @ replicate (32 - length bs) 0) else Inl ValueOutOfBounds
      | Uint bits n \<Rightarrow>
          if 0 \<le> n \<and> n < 2 ^ bits then Inr (be_bytes32 n) else Inl ValueOutOfBounds
      | Address bs \<Rightarrow> Inr (replicate (32 - length bs) 0 @ bs))"

text \<open>\<open>encode(types, values)\<close> for static types: the words one after the other.\<close>

fun encode :: "abi_value list \<Rightarrow> py_error + int list" where
  "encode [] = Inr []"
| "encode (a # as) =
     (case encode_single a of
        Inl e \<Rightarrow> Inl e
      | Inr w \<Rightarrow> (case encode as of Inl e \<Rightarrow> Inl e | Inr ws \<Rightarrow> Inr (w @ ws)))"

text \<open>
  \<open>Web3.to_checksum_address\<close>: the text must be 40 hexadecimal digits, with or without
  \<open>0x\<close>; otherwise \<open>ValueError\<close>. The checksummed spelling it returns denotes the same 20
  bytes, which is all the encoder uses.
\<close>

definition to_checksum_address :: "string \<Rightarrow> py_error + int list" where
  "to_checksum_address s =
     (let h = (if take 2 s = ''0x'' \<or> take 2 s = ''0X'' then drop 2 s else s)
      in if length h = 40 \<and> list_all (\<lambda>c. hex_val c \<noteq> None) h then fromhex h else Inl ValueError)"

text \<open>
  The body of \<open>create_signature\<close> once the nonce and the deadline are fixed: the domain
  separator, the struct hash, the EIP-712 message hash, the signature, the adjustment of
  \<open>v\<close> and the ABI encoding of \<open>(r, s, v)\<close> as hexadecimal text.
\<close>

definition signature_hex_of ::
    "crypto \<Rightarrow> provider_config \<Rightarrow> string \<Rightarrow> int \<Rightarrow> int \<Rightarrow> int \<Rightarrow> py_error + string" where
  "signature_hex_of cr cfg secid price_arg nonce_val deadline_val =
     (let domain_type_hash = keccak cr (bytes_of_text
            ''EIP712Domain(string name,string version,uint256 chainId,address verifyingContract)'');
          name_hash = keccak cr (bytes_of_text ''BondOracle'');
          version_hash = keccak cr (bytes_of_text ''1'')
      in case to_checksum_address (BOND_ORACLE_ADDRESS cfg) of
           Inl e \<Rightarrow> Inl e
         | Inr verifying_contract \<Rightarrow>
      (case encode [Bytes32 domain_type_hash, Bytes32 name_hash, Bytes32 version_hash,
                    Uint 256 (CHAIN_ID cfg), Address verifying_contract] of
           Inl e \<Rightarrow> Inl e
         | Inr encoded_domain \<Rightarrow>
      (let domain_separator = keccak cr encoded_domain;
           price_update_type_hash = keccak cr (bytes_of_text
             ''PriceUpdate(string secid,uint160 price,uint256 nonce,uint256 deadline)'');
           secid_hash = keccak cr (bytes_of_text secid)
       in case encode [Bytes32 price_update_type_hash, Bytes32 secid_hash, Uint 160 price_arg,
                       Uint 256 nonce_val, Uint 256 deadline_val] of
           Inl e \<Rightarrow> Inl e
         | Inr encoded_struct \<Rightarrow>
      (let struct_hash = keccak cr encoded_struct;
           message_hash = keccak cr ([25, 1] @ domain_separator @ struct_hash)
       in case fromhex (private_key_hex cfg) of
           Inl e \<Rightarrow> Inl e
         | Inr private_key \<Rightarrow>
      (case sign_msg_hash cr private_key message_hash of
         (r, s, v) \<Rightarrow>
           (let v_adjusted = (if v < 27 then v + 27 else v)
            in if r < 0 \<or> 2 ^ 256 \<le> r \<or> s < 0 \<or> 2 ^ 256 \<le> s then Inl OverflowError
               else (case encode [Bytes32 (be_bytes32 r), Bytes32 (be_bytes32 s),
                                  Uint 8 v_adjusted] of
                       Inl e \<Rightarrow> Inl e
                     | Inr signature_bytes \<Rightarrow> Inr (''0x'' @ hex_of_bytes signature_bytes))))))))"

text \<open>
  \<open>create_signature(secid, price, nonce=None, deadline=None)\<close>, with \<open>now\<close> the value of
  \<open>time.time()\<close>. A missing nonce is taken from the nonce manager, which advances even
  when the rest of the function raises; a missing deadline is
  \<open>int(time.time()) + Config.SIGNATURE_EXPIRY_SECONDS\<close>. The result is the raised exception
  or \<open>(signature_hex, nonce, deadline)\<close>, together with the nonce manager and its files.
\<close>

definition create_signature ::
    "crypto \<Rightarrow> provider_config \<Rightarrow> rat \<Rightarrow> string \<Rightarrow> int \<Rightarrow> int option \<Rightarrow> int option
      \<Rightarrow> NonceManager \<Rightarrow> filesys
      \<Rightarrow> (py_error + (string \<times> int \<times> int)) \<times> NonceManager \<times> filesys" where
  "create_signature cr cfg now secid price_arg nonce_arg deadline_arg mgr fs =
     (case (case nonce_arg of None \<Rightarrow> get_next_nonce mgr fs | Some n \<Rightarrow> (n, mgr, fs)) of
        (nonce_val, mgr', fs') \<Rightarrow>
          (let deadline_val = (case deadline_arg of
                                 None \<Rightarrow> \<lfloor>now\<rfloor> + SIGNATURE_EXPIRY_SECONDS cfg
                               | Some d \<Rightarrow> d)
           in (case signature_hex_of cr cfg secid price_arg nonce_val deadline_val of
                 Inl e \<Rightarrow> (Inl e, mgr', fs')
               | Inr signature_hex \<Rightarrow> (Inr (signature_hex, nonce_val, deadline_val), mgr', fs'))))"

text \<open>
  The claim's words, for comparison. \<open>abi.encode\<close> of 32-byte words is their
  concatenation; \<open>D\<close> is the domain separator, \<open>H\<close> the struct hash and the digest is
  \<open>keccak256(0x19 || 0x01 || D || H)\<close>.
\<close>

definition domain_separator_spec :: "crypto \<Rightarrow> int \<Rightarrow> int list \<Rightarrow> int list" where
  "domain_separator_spec cr chain_id verifying_contract =
     keccak cr
       (keccak cr (bytes_of_text
           ''EIP712Domain(string name,string version,uint256 chainId,address verifyingContract)'')
        @ keccak cr (bytes_of_text ''BondOracle'')
        @ keccak cr (bytes_of_text ''1'')
        @ be_bytes32 chain_id
        @ (replicate 12 0 @ verifying_contract))"

definition struct_hash_spec :: "crypto \<Rightarrow> string \<Rightarrow> int \<Rightarrow> int \<Rightarrow> int \<Rightarrow> int list" where
  "struct_hash_spec cr secid price_arg nonce_val deadline_val =
     keccak cr
       (keccak cr (bytes_of_text
           ''PriceUpdate(string secid,uint160 price,uint256 nonce,uint256 deadline)'')
        @ keccak cr (bytes_of_text secid)
        @ be_bytes32 price_arg
        @ be_bytes32 nonce_val
        @ be_bytes32 deadline_val)"

definition digest_spec ::
    "crypto \<Rightarrow> int \<Rightarrow> int list \<Rightarrow> string \<Rightarrow> int \<Rightarrow> int \<Rightarrow> int \<Rightarrow> int list" where
  "digest_spec cr chain_id verifying_contract secid price_arg nonce_val deadline_val =
     keccak cr ([25, 1] @ domain_separator_spec cr chain_id verifying_contract
                @ struct_hash_spec cr secid price_arg nonce_val deadline_val)"

text \<open>
  A stand-in for the two primitives, to run the model on concrete inputs: a 32-byte value
  computed from the input, and a fixed \<open>(r, s)\<close> with recovery value 1.
\<close>

definition toy_crypto :: crypto where
  "toy_crypto = \<lparr>keccak = (\<lambda>bs. be_bytes32 (sum_list bs + int (length bs))),
                 sign_msg_hash = (\<lambda>key h. (sum_list h + 7, sum_list key + 11, 1))\<rparr>"

definition toy_config :: provider_config where
  "toy_config = \<lparr>PRICE_SCALING_FACTOR = 100000000, CACHE_TTL = 10, CHAIN_ID = 1,
                 BOND_ORACLE_ADDRESS = ''0x00000000000000000000000000000000000000a1'',
                 SIGNATURE_EXPIRY_SECONDS = 3600,
                 private_key_hex = ''00000000000000000000000000000000000000000000000000000000000000c7''\<rparr>"

definition mgr0 :: NonceManager where
  "mgr0 = \<lparr>nonce_file_path = ''n.json'', current_nonce = 0\<rparr>"

section \<open>HTTPFront: \<open>app.py\<close>\<close>

text \<open>
  JSON values of a price entry, and a dictionary with text keys as the list of its items in
  insertion order (keys are distinct, as in a Python \<open>dict\<close>).
\<close>

datatype jval =
    JNull
  | JBool bool
  | JInt int
  | JFloat rat
  | JStr string

type_synonym price_entry = "(string \<times> jval) list"

text \<open>\<open>d[k] = v\<close>: an existing key keeps its place, a new key goes to the end.\<close>

fun dict_set :: "'k \<Rightarrow> 'v \<Rightarrow> ('k \<times> 'v) list \<Rightarrow> ('k \<times> 'v) list" where
  "dict_set k v [] = [(k, v)]"
| "dict_set k v ((k', v') # rest) =
     (if k' = k then (k, v) # rest else (k', v') # dict_set k v rest)"

text \<open>The price snapshot \<open>{"timestamp": ..., "prices": {secid: entry}}\<close> that is cached.\<close>

record snapshot =
  timestamp :: int
  prices :: "(string \<times> price_entry) list"

text \<open>
  The exchange as the handlers use it: \<open>fetch_ofz_list()\<close> gives the SECIDs of the
  instrument rows or raises, and the requests for one SECID give its answers or raise.
\<close>

record moex =
  ofz_list :: "py_error + string list"
  quote :: "string \<Rightarrow> py_error + exchange"

text \<open>
  The provider's state: the nonce manager singleton and its files, the price-cache file
  (holding a snapshot when it parses) and whether that file can be written.
\<close>

record provider =
  signer_nonces :: NonceManager
  signer_files :: filesys
  price_cache :: "snapshot cache_file"
  cache_writable :: bool

datatype response =
    SnapshotResponse snapshot
  | EntryResponse int price_entry
  | NotFound
  | ServerError py_error

text \<open>
  The two conversions to \<open>price_uint\<close>: \<open>get_all_prices\<close> has
  \<open>int(round(float(price) * 100)) * (Config.PRICE_SCALING_FACTOR // 100)\<close> and
  \<open>get_price_for_secid\<close> has
  \<open>int(round(float(price) * 1000)) * (Config.PRICE_SCALING_FACTOR // 1000)\<close>.
\<close>

definition price_uint_all_prices :: "provider_config \<Rightarrow> rat \<Rightarrow> int" where
  "price_uint_all_prices cfg pr =
     round_half_even (fmul (fl pr) 100) * (PRICE_SCALING_FACTOR cfg div 100)"

definition price_uint_for_secid :: "provider_config \<Rightarrow> rat \<Rightarrow> int" where
  "price_uint_for_secid cfg pr =
     round_half_even (fmul (fl pr) 1000) * (PRICE_SCALING_FACTOR cfg div 1000)"

text \<open>The \<open>price_info\<close> dictionary before and after the signature members are added.\<close>

definition make_price_info :: "rat \<Rightarrow> int \<Rightarrow> bool \<Rightarrow> price_entry" where
  "make_price_info pr pu is_current =
     [(''price'', JFloat (fl pr)),
      (''price_uint'', JInt pu),
      (''is_current_market_data'', JBool is_current),
      (''data_source'', JStr (if is_current then ''market_price'' else ''daily_candle''))]"

definition add_signature :: "price_entry \<Rightarrow> string \<times> int \<times> int \<Rightarrow> price_entry" where
  "add_signature info sig =
     (case sig of (signature_hex, nonce_val, deadline_val) \<Rightarrow>
        dict_set ''deadline'' (JInt deadline_val)
          (dict_set ''nonce'' (JInt nonce_val)
             (dict_set ''signature'' (JStr signature_hex) info)))"

text \<open>\<open>{k: v for k, v in price_info.items() if k != 'signature'}\<close>.\<close>

definition without_signature :: "price_entry \<Rightarrow> price_entry" where
  "without_signature price_info = filter (\<lambda>(k, v). k \<noteq> ''signature'') price_info"

text \<open>
  The loop of \<open>get_all_prices\<close> over the instrument rows on a cache miss. \<open>if price:\<close>
  skips an instrument without a price and one whose price is 0. An exception ends the
  loop (the handler answers 500); nonces taken before it stay taken.
\<close>

fun price_loop ::
    "crypto \<Rightarrow> provider_config \<Rightarrow> moex \<Rightarrow> rat \<Rightarrow> bool \<Rightarrow> string list
      \<Rightarrow> (string \<times> price_entry) list \<Rightarrow> NonceManager \<Rightarrow> filesys
      \<Rightarrow> (py_error + (string \<times> price_entry) list) \<times> NonceManager \<times> filesys" where
  "price_loop cr cfg mx now with_signature [] acc mgr fs = (Inr acc, mgr, fs)"
| "price_loop cr cfg mx now with_signature (secid # rest) acc mgr fs =
     (case quote mx secid of
        Inl e \<Rightarrow> (Inl e, mgr, fs)
      | Inr ex \<Rightarrow>
     (case get_price ex of
        Inl e \<Rightarrow> (Inl e, mgr, fs)
      | Inr (None, is_current) \<Rightarrow> price_loop cr cfg mx now with_signature rest acc mgr fs
      | Inr (Some pr, is_current) \<Rightarrow>
          if pr = 0 then price_loop cr cfg mx now with_signature rest acc mgr fs
          else (let pu = price_uint_all_prices cfg pr;
                    info = make_price_info pr pu is_current
                in if with_signature
                   then (case create_signature cr cfg now secid pu None None mgr fs of
                           (Inl e, mgr', fs') \<Rightarrow> (Inl e, mgr', fs')
                         | (Inr sig, mgr', fs') \<Rightarrow>
                             price_loop cr cfg mx now with_signature rest
                               (dict_set secid (add_signature info sig) acc) mgr' fs')
                   else price_loop cr cfg mx now with_signature rest
                          (dict_set secid info acc) mgr fs)))"

text \<open>
  \<open>GET /api/prices\<close>. \<open>with_signature\<close> is \<open>request.args.get('sign') is not None\<close> and
  \<open>now\<close> the clock. A cached snapshot is a non-empty dictionary, so \<open>if cached_data:\<close>
  holds for it; \<open>cached_data.get("prices")\<close> is true when there is at least one entry.
  An exception of \<open>get_cached_data\<close> is outside the \<open>try\<close> and is answered by the 500
  error handler.
\<close>

definition get_all_prices ::
    "crypto \<Rightarrow> provider_config \<Rightarrow> moex \<Rightarrow> rat \<Rightarrow> bool \<Rightarrow> provider \<Rightarrow> response \<times> provider" where
  "get_all_prices cr cfg mx now with_signature st =
     (case get_cached_data (CACHE_TTL cfg) now (price_cache st) of
        Inl e \<Rightarrow> (ServerError e, st)
      | Inr (Some cached_data) \<Rightarrow>
          if \<not> with_signature \<and> prices cached_data \<noteq> []
          then (SnapshotResponse
                  \<lparr>timestamp = timestamp cached_data,
                   prices = map (\<lambda>(secid, price_info). (secid, without_signature price_info))
                              (prices cached_data)\<rparr>, st)
          else (SnapshotResponse cached_data, st)
      | Inr None \<Rightarrow>
          (case ofz_list mx of
             Inl e \<Rightarrow> (ServerError e, st)
           | Inr secids \<Rightarrow>
               (case price_loop cr cfg mx now with_signature secids []
                       (signer_nonces st) (signer_files st) of
                  (Inl e, mgr', fs') \<Rightarrow>
                    (ServerError e, st\<lparr>signer_nonces := mgr', signer_files := fs'\<rparr>)
                | (Inr ps, mgr', fs') \<Rightarrow>
                    (let price_data = \<lparr>timestamp = \<lfloor>now\<rfloor>, prices = ps\<rparr>
                     in (SnapshotResponse price_data,
                         st\<lparr>signer_nonces := mgr', signer_files := fs',
                            price_cache := (if cache_writable st
                                            then CacheFile now (ReadJson price_data)
                                            else price_cache st)\<rparr>)))))"

text \<open>
  \<open>GET /api/prices/<secid>\<close>. On a cache hit that holds the SECID the cached entry is
  answered, without its \<open>signature\<close> member when no signature was requested. Otherwise the
  price is fetched; nothing is written to the cache.
\<close>

definition get_price_for_secid ::
    "crypto \<Rightarrow> provider_config \<Rightarrow> moex \<Rightarrow> rat \<Rightarrow> bool \<Rightarrow> string \<Rightarrow> provider
      \<Rightarrow> response \<times> provider" where
  "get_price_for_secid cr cfg mx now with_signature secid st =
     (case get_cached_data (CACHE_TTL cfg) now (price_cache st) of
        Inl e \<Rightarrow> (ServerError e, st)
      | Inr cached \<Rightarrow>
     (case (case cached of None \<Rightarrow> None | Some cached_data \<Rightarrow>
              (case map_of (prices cached_data) secid of
                 None \<Rightarrow> None
               | Some price_info \<Rightarrow> Some (timestamp cached_data, price_info))) of
        Some (ts, price_info) \<Rightarrow>
          (EntryResponse ts
             (if \<not> with_signature \<and> ''signature'' \<in> fst ` set price_info
              then without_signature price_info else price_info), st)
      | None \<Rightarrow>
     (case quote mx secid of
        Inl e \<Rightarrow> (ServerError e, st)
      | Inr ex \<Rightarrow>
     (case get_price ex of
        Inl e \<Rightarrow> (ServerError e, st)
      | Inr (None, is_current) \<Rightarrow> (NotFound, st)
      | Inr (Some pr, is_current) \<Rightarrow>
          if pr = 0 then (NotFound, st)
          else (let pu = price_uint_for_secid cfg pr;
                    info = make_price_info pr pu is_current
                in if with_signature
                   then (case create_signature cr cfg now secid pu None None
                                (signer_nonces st) (signer_files st) of
                           (Inl e, mgr', fs') \<Rightarrow>
                             (ServerError e, st\<lparr>signer_nonces := mgr', signer_files := fs'\<rparr>)
                         | (Inr sig, mgr', fs') \<Rightarrow>
                             (EntryResponse \<lfloor>now\<rfloor> (add_signature info sig),
                              st\<lparr>signer_nonces := mgr', signer_files := fs'\<rparr>))
                   else (EntryResponse \<lfloor>now\<rfloor> info, st))))))"

text \<open>An entry without any of the three members of a signed attestation.\<close>

definition unsigned_only :: "price_entry \<Rightarrow> bool" where
  "unsigned_only e \<longleftrightarrow>
     ''signature'' \<notin> fst ` set e \<and> ''nonce'' \<notin> fst ` set e \<and> ''deadline'' \<notin> fst ` set e"

text \<open>
  Scenarios. The exchange lists one bond, with unknown nominal value and
  \<open>MARKETPRICE = 97.125\<close>. \<open>st_cold\<close> is a provider with no cache file; \<open>st_signed\<close> has,
  written at time 1000, a snapshot whose entry carries a signature, nonce 5 and deadline
  2000000000; \<open>st_unsigned\<close> has a snapshot written by a request without \<open>sign\<close>.
\<close>

definition mx_one :: moex where
  "mx_one = \<lparr>ofz_list = Inr [''SU26207RMFS9''],
            quote = (\<lambda>secid. Inr \<lparr>initialPrice = None,
                                   market = \<lparr>columns = [''MARKETPRICE''],
                                             rows = [[Some (777 / 8)]]\<rparr>,
                                   candles = []\<rparr>)\<rparr>"

definition st_cold :: provider where
  "st_cold = \<lparr>signer_nonces = mgr0, signer_files = fs0, price_cache = CacheAbsent,
              cache_writable = True\<rparr>"



definition unsigned_entry :: price_entry where
  "unsigned_entry = [(''price'', JFloat 97), (''price_uint'', JInt 97000000),
                     (''is_current_market_data'', JBool True),
                     (''data_source'', JStr ''market_price'')]"

definition st_unsigned :: provider where
  "st_unsigned = st_cold\<lparr>price_cache :=
      CacheFile 1000 (ReadJson \<lparr>timestamp = 1000, prices = [(''SU26207'', unsigned_entry)]\<rparr>)\<rparr>"

section \<open>Publisher: \<open>publisher.py\<close>\<close>

text \<open>
  \<open>PriceService.should_update_price\<close>, with \<open>threshold\<close> the configured
  \<open>PRICE_CHANGE_THRESHOLD_PERCENT\<close> (a float). The prices are Python integers, so
  \<open>abs(new_price - current_price)\<close> is exact, \<open>/\<close> is the correctly rounded true
  division and \<open>* 100\<close> a float multiplication.
\<close>

definition should_update_price :: "rat \<Rightarrow> int \<Rightarrow> int option \<Rightarrow> bool" where
  "should_update_price threshold new_price current_price =
     (case current_price of
        None \<Rightarrow> False
      | Some cur \<Rightarrow>
          if cur = 0 then True
          else (let price_change_percent = fmul (fdiv (of_int \<bar>new_price - cur\<bar>) (of_int cur)) 100
                in threshold \<le> price_change_percent))"

text \<open>\<open>PriceService.prepare_signature\<close> on a string: drop a leading \<open>0x\<close>, decode the rest.\<close>

definition prepare_signature :: "string \<Rightarrow> py_error + int list" where
  "prepare_signature signature_hex =
     fromhex (if take 2 signature_hex = ''0x'' then drop 2 signature_hex else signature_hex)"

text \<open>
  The \<open>price\<close> object of the provider's answer as \<open>process_single_price_update\<close> reads
  it: each of the four members is absent (or null), or has the JSON type the provider
  writes.
\<close>

record offchain_data =
  price_uint :: "int option"
  signature :: "string option"
  deadline :: "int option"
  nonce :: "int option"

text \<open>
  \<open>PricePublisher.process_single_price_update\<close>. \<open>onchain\<close> is what
  \<open>get_onchain_price(secid)\<close> does (it raises, or returns the price, or \<open>None\<close> for an
  unregistered bond) and \<open>current_time\<close> is \<open>int(time.time())\<close> at the deadline check.
  The result is the list of calls of \<open>send_update_price_transaction\<close> the run makes, each
  with its arguments \<open>(secid, price_uint, deadline, nonce, signature_bytes)\<close>. Every
  exception inside the \<open>try\<close> is logged and ends the run.
\<close>

definition process_single_price_update ::
    "rat \<Rightarrow> int \<Rightarrow> py_error + int option \<Rightarrow> string \<Rightarrow> offchain_data
      \<Rightarrow> (string \<times> int \<times> int \<times> int \<times> int list) list" where
  "process_single_price_update threshold current_time onchain secid od =
     (case (price_uint od, signature od, deadline od, nonce od) of
        (Some new_price_uint, Some sg, Some dl, Some nc) \<Rightarrow>
          (case onchain of
             Inl e \<Rightarrow> []
           | Inr current_onchain_price \<Rightarrow>
               if should_update_price threshold new_price_uint current_onchain_price
               then (case prepare_signature sg of
                       Inl e \<Rightarrow> []
                     | Inr signature_bytes \<Rightarrow>
                         if dl \<le> current_time then []
                         else [(secid, new_price_uint, dl, nc, signature_bytes)])
               else [])
      | _ \<Rightarrow> [])"

section \<open>Properties of the NonceStore\<close>


lemma next_calls_path:
  "nonce_file_path (fst (snd (next_calls k self fs))) = nonce_file_path self"
proof (induction k arbitrary: self fs)
  case 0
  show ?case by simp
next
  case (Suc k)
  obtain n self' fs' where g: "get_next_nonce self fs = (n, self', fs')"
    by (cases "get_next_nonce self fs") auto
  then have p: "nonce_file_path self' = nonce_file_path self"
    by (auto simp: get_next_nonce_def Let_def)
  obtain ns s2 f2 where r: "next_calls k self' fs' = (ns, s2, f2)"
    by (cases "next_calls k self' fs'") auto
  show ?case using Suc.IH [of self' fs'] g r p by simp
qed

lemma next_calls_current:
  "current_nonce (fst (snd (next_calls k self fs))) = current_nonce self + int k"
proof (induction k arbitrary: self fs)
  case 0
  show ?case by simp
next
  case (Suc k)
  obtain n self' fs' where g: "get_next_nonce self fs = (n, self', fs')"
    by (cases "get_next_nonce self fs") auto
  then have c: "current_nonce self' = current_nonce self + 1"
    by (auto simp: get_next_nonce_def Let_def)
  obtain ns s2 f2 where r: "next_calls k self' fs' = (ns, s2, f2)"
    by (cases "next_calls k self' fs'") auto
  show ?case using Suc.IH [of self' fs'] g r c by simp
qed





subsection \<open>Persistence and reload\<close>

lemma save_nonce_writable:
  "writable (save_nonce self fs) = writable fs"
  by (simp add: save_nonce_def Let_def)

lemma save_nonce_synced:
  "writable fs (nonce_file_path self) \<Longrightarrow>
   files (save_nonce self fs) (nonce_file_path self) = JsonObject (Some (current_nonce self))"
  by (simp add: save_nonce_def Let_def)

lemma next_calls_writable:
  "writable (snd (snd (next_calls k self fs))) = writable fs"
proof (induction k arbitrary: self fs)
  case 0
  show ?case by simp
next
  case (Suc k)
  obtain n self' fs' where g: "get_next_nonce self fs = (n, self', fs')"
    by (cases "get_next_nonce self fs") auto
  then have w: "writable fs' = writable fs"
    by (auto simp: get_next_nonce_def Let_def save_nonce_writable)
  obtain ns s2 f2 where r: "next_calls k self' fs' = (ns, s2, f2)"
    by (cases "next_calls k self' fs'") auto
  show ?case using Suc.IH [of self' fs'] g r w by simp
qed





section \<open>Rounding error of binary64 arithmetic\<close>









section \<open>Properties of the PriceCache\<close>

text \<open>
  On every state of the cache file but one, \<open>get_cached_data\<close> raises nothing and returns
  the stored document exactly when the file exists, is not older than the TTL and parses.
\<close>

lemma get_cached_data_decodable:
  assumes "\<forall>t. cf \<noteq> CacheFile t ReadNotText"
  shows "get_cached_data ttl now cf =
           Inr (case cf of
                  CacheFile t (ReadJson d) \<Rightarrow> if now - t \<le> of_int ttl then Some d else None
                | _ \<Rightarrow> None)"
  using assms
  by (auto simp: get_cached_data_def split: cache_file.splits read_outcome.splits)

text \<open>
  C8. The remaining state is a damaged file: the cache file exists, is 3 seconds old with a
  TTL of 10, and its bytes are not valid text (for instance the single byte \<open>0xFF\<close>).
  Reading it raises \<open>UnicodeDecodeError\<close>, which the \<open>except\<close> clause does not catch:
  \<open>get_cached_data\<close> raises instead of returning \<open>None\<close>.
\<close>

theorem C8_undecodable_cache_raises:
  "get_cached_data 10 1003 (CacheFile 1000 ReadNotText :: unit cache_file) = Inl UnicodeDecodeError"
  by (simp add: get_cached_data_def)

section \<open>Properties of the PriceResolver\<close>

lemma index_of_less: "x \<in> set xs \<Longrightarrow> index_of xs x < length xs"
  by (induction xs) auto

lemma build_price_data_snapshot:
  assumes "rows js = row # rest" and "length (columns js) \<le> length row"
  shows "build_price_data (columns js) row fs = Inr (map (\<lambda>f. (f, snapshot_value js f)) fs)"
proof (induction fs)
  case Nil
  show ?case by simp
next
  case (Cons f fs)
  have "cell (columns js) row f = Inr (snapshot_value js f)"
    using assms index_of_less [of f "columns js"]
    by (auto simp: cell_def snapshot_value_def Let_def)
  then show ?case using Cons.IH by simp
qed

lemma scan_fields_find:
  assumes "set gs \<subseteq> set fs"
  shows "scan_fields (map (\<lambda>f. (f, sv f)) fs) gs
           = (case List.find (\<lambda>f. sv f \<noteq> None) gs of
                None \<Rightarrow> (None, None)
              | Some f \<Rightarrow> (sv f, Some f))"
  using assms
proof (induction gs)
  case Nil
  show ?case by simp
next
  case (Cons g gs)
  have m: "map_of (map (\<lambda>f. (f, sv f)) fs) g = Some (sv g)"
    using Cons.prems by (simp add: map_of_map_restrict)
  show ?case
  proof (cases "sv g")
    case None
    then show ?thesis using m Cons by simp
  next
    case (Some v)
    then show ?thesis using m by simp
  qed
qed

lemma market_prices_first_non_null:
  assumes "rows js \<noteq> []" and "length (columns js) \<le> length (hd (rows js))"
  shows "\<exists>src. market_prices js = Inr (first_non_null js, src)"
proof -
  obtain row rest where r: "rows js = row # rest"
    using assms(1) by (cases "rows js") auto
  have len: "length (columns js) \<le> length row" using assms(2) r by simp
  have "market_prices js
          = Inr (scan_fields (map (\<lambda>f. (f, snapshot_value js f)) price_fields) price_fields)"
    by (simp add: market_prices_def r build_price_data_snapshot [OF r len])
  also have "scan_fields (map (\<lambda>f. (f, snapshot_value js f)) price_fields) price_fields
      = (case List.find (\<lambda>f. snapshot_value js f \<noteq> None) price_fields of
                None \<Rightarrow> (None, None)
              | Some f \<Rightarrow> (snapshot_value js f, Some f))"
    by (rule scan_fields_find) (rule subset_refl)
  finally have mp: "market_prices js
      = Inr (case List.find (\<lambda>f. snapshot_value js f \<noteq> None) price_fields of
                None \<Rightarrow> (None, None)
              | Some f \<Rightarrow> (snapshot_value js f, Some f))" .
  show ?thesis
  proof (cases "List.find (\<lambda>f. snapshot_value js f \<noteq> None) price_fields")
    case None
    then show ?thesis unfolding mp first_non_null_def by simp
  next
    case (Some f)
    then show ?thesis unfolding mp first_non_null_def by simp
  qed
qed

lemma market_prices_source:
  assumes "market_prices js = Inr (Some v, src)"
  shows "src \<noteq> Some ''candle''"
proof -
  have "\<And>pd gs v src. scan_fields pd gs = (Some v, src) \<Longrightarrow> \<exists>f \<in> set gs. src = Some f"
  proof -
    fix pd gs v src
    show "scan_fields pd gs = (Some v, src) \<Longrightarrow> \<exists>f \<in> set gs. src = Some f"
      by (induction gs) (auto split: option.splits)
  qed
  then have "\<exists>f \<in> set price_fields. src = Some f"
    using assms by (auto simp: market_prices_def split: list.splits sum.splits)
  then show ?thesis by (auto simp: price_fields_def)
qed

text \<open>
  C1, as the code has it. When the snapshot has a row that covers its columns,
  \<open>get_price\<close> returns a pair: it takes the first value that is not null among the six
  fields in their fixed priority order and returns the absolute price
  \<open>float(value) * nominal / 100\<close> with the flag true, where \<open>nominal\<close> is the bond's
  initial face value, or 100 when that is absent or not positive; if all six fields are
  null and there are daily candles, it returns the absolute price of the close of the last
  candle row with the flag false; otherwise it returns \<open>(None, False)\<close>.
\<close>

theorem C1_get_price_absolute:
  assumes "rows (market ex) \<noteq> []"
    and "length (columns (market ex)) \<le> length (hd (rows (market ex)))"
  shows "get_price ex =
           Inr (case first_non_null (market ex) of
                  Some v \<Rightarrow> (Some (absolute_price (initialPrice ex) v), True)
                | None \<Rightarrow>
                    if candles ex \<noteq> []
                    then (Some (absolute_price (initialPrice ex) (snd (last (candles ex)))), False)
                    else (None, False))"
proof -
  obtain src where mp: "market_prices (market ex) = Inr (first_non_null (market ex), src)"
    using market_prices_first_non_null [OF assms] by blast
  show ?thesis
  proof (cases "first_non_null (market ex)")
    case None
    then show ?thesis using mp
      by (simp add: get_price_def get_price_detailed_def absolute_price_def Let_def)
  next
    case (Some v)
    then have "src \<noteq> Some ''candle''" using mp market_prices_source by metis
    then show ?thesis using mp Some
      by (simp add: get_price_def get_price_detailed_def absolute_price_def Let_def)
  qed
qed

theorem C1_get_price_absolute_witness:
  "get_price ex_candle = Inr (Some (193 / 2), False)"
proof -
  have h1: "rows (market ex_candle) \<noteq> []" by (simp add: ex_candle_def)
  have h2: "length (columns (market ex_candle)) \<le> length (hd (rows (market ex_candle)))"
    by (simp add: ex_candle_def)
  have e1: "first_non_null (market ex_candle) = None" by code_simp
  have e2: "absolute_price (initialPrice ex_candle) (snd (last (candles ex_candle))) = 193 / 2"
    by code_simp
  have e3: "candles ex_candle \<noteq> []" by (simp add: ex_candle_def)
  show ?thesis
    using C1_get_price_absolute [OF h1 h2] e1 e2 e3 by simp
qed

text \<open>
  C1, counterexample. The claim as stated fails when the nominal value is not 100: for \<open>ex_market\<close> the first
  field that is not null is \<open>MARKETPRICE = 97.125\<close>, a percentage of the face value, but
  \<open>get_price\<close> returns 971.25, the absolute price for the nominal value of 1000.
\<close>

theorem C1_counterexample:
  "get_price ex_market = Inr (Some (3885 / 4), True)
   \<and> first_non_null (market ex_market) = Some (777 / 8)
   \<and> (3885 / 4 :: rat) \<noteq> 777 / 8"
  by code_simp

section \<open>Properties of the Signer\<close>

lemma length_be_bytes: "length (be_bytes k n) = k"
  by (induction k arbitrary: n) auto

lemma length_be_bytes32: "length (be_bytes32 n) = 32"
  by (simp add: be_bytes32_def length_be_bytes)

lemma hex_not_space: "hex_val c = Some h \<Longrightarrow> \<not> is_space c"
  by (auto simp: hex_val_def is_space_def Let_def split: if_splits)

lemma fromhex_length:
  "list_all (\<lambda>c. hex_val c \<noteq> None) h \<Longrightarrow> fromhex h = Inr bs \<Longrightarrow> length h = 2 * length bs"
proof (induction h arbitrary: bs rule: fromhex.induct)
  case 1
  then show ?case by simp
next
  case (2 c)
  then show ?case by (auto simp: hex_not_space)
next
  case (3 c d cs)
  from "3.prems"(1) obtain hc hd where hc: "hex_val c = Some hc" and hd: "hex_val d = Some hd"
    and rest: "list_all (\<lambda>c. hex_val c \<noteq> None) cs"
    by auto
  have ns: "\<not> is_space c" using hc by (rule hex_not_space)
  from "3.prems"(2) ns hc hd obtain bs' where r: "fromhex cs = Inr bs'" and b: "bs = (16 * hc + hd) # bs'"
    by (auto split: sum.splits)
  have "length cs = 2 * length bs'"
    using "3.IH"(2) [OF ns _ hc hd rest r] by simp
  then show ?case using b by simp
qed

lemma to_checksum_address_length:
  assumes "to_checksum_address s = Inr addr"
  shows "length addr = 20"
proof -
  define h where "h = (if take 2 s = ''0x'' \<or> take 2 s = ''0X'' then drop 2 s else s)"
  have c: "length h = 40 \<and> list_all (\<lambda>c. hex_val c \<noteq> None) h" and f: "fromhex h = Inr addr"
    using assms unfolding to_checksum_address_def h_def [symmetric] Let_def
    by (auto split: if_splits)
  from fromhex_length [OF conjunct2 [OF c] f] c show ?thesis by simp
qed

lemma encode_single_bytes32:
  "length w = 32 \<Longrightarrow> encode_single (Bytes32 w) = Inr w"
  by (simp add: encode_single_def)

lemma encode_single_uint:
  "0 \<le> n \<Longrightarrow> n < 2 ^ bits \<Longrightarrow> encode_single (Uint bits n) = Inr (be_bytes32 n)"
  by (simp add: encode_single_def)

lemma encode_single_address:
  "length a = 20 \<Longrightarrow> encode_single (Address a) = Inr (replicate 12 0 @ a)"
  by (simp add: encode_single_def)

lemma signature_hex_of_spec:
  assumes K: "\<forall>bs. length (keccak cr bs) = 32"
    and A: "to_checksum_address (BOND_ORACLE_ADDRESS cfg) = Inr addr"
    and chain: "0 \<le> CHAIN_ID cfg" "CHAIN_ID cfg < 2 ^ 256"
    and pr: "0 \<le> price_arg" "price_arg < 2 ^ 160"
    and nn: "0 \<le> n" "n < 2 ^ 256"
    and dd: "0 \<le> d" "d < 2 ^ 256"
    and key: "fromhex (private_key_hex cfg) = Inr key"
    and sg: "sign_msg_hash cr key (digest_spec cr (CHAIN_ID cfg) addr secid price_arg n d) = (r, s, v)"
    and rs: "0 \<le> r" "r < 2 ^ 256" "0 \<le> s" "s < 2 ^ 256" and vv: "v \<in> {0, 1, 27, 28}"
  shows "signature_hex_of cr cfg secid price_arg n d =
           Inr (''0x'' @ hex_of_bytes (be_bytes32 r @ be_bytes32 s
                                       @ be_bytes32 (if v < 27 then v + 27 else v)))"
proof -
  have k32: "\<And>bs. length (keccak cr bs) = 32" using K by simp
  have la: "length addr = 20" using A by (rule to_checksum_address_length)
  have dom: "encode [Bytes32 (keccak cr (bytes_of_text
            ''EIP712Domain(string name,string version,uint256 chainId,address verifyingContract)'')),
          Bytes32 (keccak cr (bytes_of_text ''BondOracle'')),
          Bytes32 (keccak cr (bytes_of_text ''1'')),
          Uint 256 (CHAIN_ID cfg), Address addr]
      = Inr (keccak cr (bytes_of_text
           ''EIP712Domain(string name,string version,uint256 chainId,address verifyingContract)'')
        @ keccak cr (bytes_of_text ''BondOracle'')
        @ keccak cr (bytes_of_text ''1'')
        @ be_bytes32 (CHAIN_ID cfg)
        @ (replicate 12 0 @ addr))"
    by (simp only: encode.simps encode_single_bytes32 [OF k32] encode_single_uint [OF chain]
        encode_single_address [OF la] sum.case append_Nil2 append_assoc)
  have str: "encode [Bytes32 (keccak cr (bytes_of_text
             ''PriceUpdate(string secid,uint160 price,uint256 nonce,uint256 deadline)'')),
          Bytes32 (keccak cr (bytes_of_text secid)), Uint 160 price_arg, Uint 256 n, Uint 256 d]
      = Inr (keccak cr (bytes_of_text
           ''PriceUpdate(string secid,uint160 price,uint256 nonce,uint256 deadline)'')
        @ keccak cr (bytes_of_text secid)
        @ be_bytes32 price_arg
        @ be_bytes32 n
        @ be_bytes32 d)"
    by (simp only: encode.simps encode_single_bytes32 [OF k32] encode_single_uint [OF pr]
        encode_single_uint [OF nn] encode_single_uint [OF dd] sum.case append_Nil2 append_assoc)
  have v8: "0 \<le> (if v < 27 then v + 27 else v)" "(if v < 27 then v + 27 else v) < 2 ^ 8"
    using vv by auto
  have sig: "encode [Bytes32 (be_bytes32 r), Bytes32 (be_bytes32 s),
                     Uint 8 (if v < 27 then v + 27 else v)]
      = Inr (be_bytes32 r @ be_bytes32 s @ be_bytes32 (if v < 27 then v + 27 else v))"
    by (simp only: encode.simps encode_single_bytes32 [OF length_be_bytes32]
        encode_single_uint [OF v8] sum.case append_Nil2 append_assoc)
  have dg: "keccak cr ([25, 1] @ keccak cr (keccak cr (bytes_of_text
           ''EIP712Domain(string name,string version,uint256 chainId,address verifyingContract)'')
        @ keccak cr (bytes_of_text ''BondOracle'')
        @ keccak cr (bytes_of_text ''1'')
        @ be_bytes32 (CHAIN_ID cfg)
        @ (replicate 12 0 @ addr))
      @ keccak cr (keccak cr (bytes_of_text
           ''PriceUpdate(string secid,uint160 price,uint256 nonce,uint256 deadline)'')
        @ keccak cr (bytes_of_text secid)
        @ be_bytes32 price_arg
        @ be_bytes32 n
        @ be_bytes32 d))
     = digest_spec cr (CHAIN_ID cfg) addr secid price_arg n d"
    by (simp only: digest_spec_def domain_separator_spec_def struct_hash_spec_def)
  have nov: "\<not> (r < 0 \<or> 2 ^ 256 \<le> r \<or> s < 0 \<or> 2 ^ 256 \<le> s)" using rs by simp
  show ?thesis
    unfolding signature_hex_of_def Let_def
    by (simp only: A dom str dg key sg sum.case prod.case nov if_False sig)
qed


text \<open>
  C7. Let the nonce be in the uint256 range after its increment, the price a uint160, the
  chain id and the deadline uint256 values, the contract address and the private key
  well-formed hexadecimal text, Keccak-256 return 32 bytes, and the signing primitive
  return \<open>(r, s, v)\<close> with \<open>r\<close> and \<open>s\<close> below \<open>2 ^ 256\<close> and \<open>v\<close> one of
  0, 1, 27, 28 for the digest \<open>keccak256(0x19 || 0x01 || D || H)\<close> of the claim. Then
  \<open>create_signature\<close>, called without a nonce and a deadline, raises nothing: it takes the
  nonce from \<open>get_next_nonce\<close> (the current nonce plus one; the manager is left advanced),
  sets the deadline to \<open>int(now) + SIGNATURE_EXPIRY_SECONDS\<close>, adds 27 to \<open>v\<close> exactly when
  \<open>v < 27\<close>, which puts it in \<open>{27, 28}\<close>, and returns \<open>0x\<close> followed by the hexadecimal
  text of the three 32-byte words \<open>r\<close>, \<open>s\<close>, \<open>v\<close>, with that nonce and deadline.
\<close>

theorem C7_create_signature:
  assumes "\<forall>bs. length (keccak cr bs) = 32"
    and "to_checksum_address (BOND_ORACLE_ADDRESS cfg) = Inr addr"
    and "0 \<le> CHAIN_ID cfg" and "CHAIN_ID cfg < 2 ^ 256"
    and "0 \<le> price_arg" and "price_arg < 2 ^ 160"
    and "0 \<le> current_nonce mgr + 1" and "current_nonce mgr + 1 < 2 ^ 256"
    and "0 \<le> \<lfloor>now\<rfloor> + SIGNATURE_EXPIRY_SECONDS cfg"
    and "\<lfloor>now\<rfloor> + SIGNATURE_EXPIRY_SECONDS cfg < 2 ^ 256"
    and "fromhex (private_key_hex cfg) = Inr key"
    and "sign_msg_hash cr key
           (digest_spec cr (CHAIN_ID cfg) addr secid price_arg (current_nonce mgr + 1)
              (\<lfloor>now\<rfloor> + SIGNATURE_EXPIRY_SECONDS cfg)) = (r, s, v)"
    and "0 \<le> r" and "r < 2 ^ 256" and "0 \<le> s" and "s < 2 ^ 256"
    and "v \<in> {0, 1, 27, 28}"
  shows "create_signature cr cfg now secid price_arg None None mgr fs =
           (Inr (''0x'' @ hex_of_bytes (be_bytes32 r @ be_bytes32 s
                                        @ be_bytes32 (if v < 27 then v + 27 else v)),
                 fst (get_next_nonce mgr fs),
                 \<lfloor>now\<rfloor> + SIGNATURE_EXPIRY_SECONDS cfg),
            snd (get_next_nonce mgr fs))
       \<and> fst (get_next_nonce mgr fs) = current_nonce mgr + 1
       \<and> (if v < 27 then v + 27 else v) \<in> {27, 28}"
proof -
  have n: "fst (get_next_nonce mgr fs) = current_nonce mgr + 1"
    by (simp add: get_next_nonce_def Let_def)
  obtain m' f' where g: "get_next_nonce mgr fs = (current_nonce mgr + 1, m', f')"
    using n by (cases "get_next_nonce mgr fs") auto
  have h: "signature_hex_of cr cfg secid price_arg (current_nonce mgr + 1)
             (\<lfloor>now\<rfloor> + SIGNATURE_EXPIRY_SECONDS cfg)
           = Inr (''0x'' @ hex_of_bytes (be_bytes32 r @ be_bytes32 s
                                         @ be_bytes32 (if v < 27 then v + 27 else v)))"
    using assms by (rule signature_hex_of_spec)
  have "create_signature cr cfg now secid price_arg None None mgr fs =
           (Inr (''0x'' @ hex_of_bytes (be_bytes32 r @ be_bytes32 s
                                        @ be_bytes32 (if v < 27 then v + 27 else v)),
                 current_nonce mgr + 1,
                 \<lfloor>now\<rfloor> + SIGNATURE_EXPIRY_SECONDS cfg), m', f')"
    unfolding create_signature_def by (simp only: option.case g prod.case Let_def h sum.case)
  moreover have "(if v < 27 then v + 27 else v) \<in> {27, 28}"
    using assms(17) by auto
  ultimately show ?thesis using g by simp
qed

theorem C7_create_signature_witness:
  "create_signature toy_crypto toy_config 1700000000 ''SU26207RMFS9'' 97125000 None None mgr0 fs0
     = (Inr (''0x0000000000000000000000000000000000000000000000000000000000000032''
             @ ''00000000000000000000000000000000000000000000000000000000000000d2''
             @ ''000000000000000000000000000000000000000000000000000000000000001c'',
             1, 1700003600),
        snd (get_next_nonce mgr0 fs0))"
proof -
  let ?addr = "replicate 19 0 @ [161] :: int list"
  let ?key = "replicate 31 0 @ [199] :: int list"
  have K: "\<forall>bs. length (keccak toy_crypto bs) = 32"
    by (simp add: toy_crypto_def length_be_bytes32)
  have A: "to_checksum_address (BOND_ORACLE_ADDRESS toy_config) = Inr ?addr"
    by code_simp
  have c: "0 \<le> CHAIN_ID toy_config" "CHAIN_ID toy_config < 2 ^ 256"
    by (simp_all add: toy_config_def)
  have p: "(0::int) \<le> 97125000" "(97125000::int) < 2 ^ 160"
    by simp_all
  have n: "0 \<le> current_nonce mgr0 + 1" "current_nonce mgr0 + 1 < 2 ^ 256"
    by (simp_all add: mgr0_def)
  have d: "0 \<le> \<lfloor>1700000000 :: rat\<rfloor> + SIGNATURE_EXPIRY_SECONDS toy_config"
    "\<lfloor>1700000000 :: rat\<rfloor> + SIGNATURE_EXPIRY_SECONDS toy_config < 2 ^ 256"
    by (simp_all add: toy_config_def)
  have k: "fromhex (private_key_hex toy_config) = Inr ?key"
    by code_simp
  have sg: "sign_msg_hash toy_crypto ?key
           (digest_spec toy_crypto (CHAIN_ID toy_config) ?addr ''SU26207RMFS9'' 97125000
              (current_nonce mgr0 + 1)
              (\<lfloor>1700000000 :: rat\<rfloor> + SIGNATURE_EXPIRY_SECONDS toy_config)) = (50, 210, 1)"
    by code_simp
  have rs: "(0::int) \<le> 50" "(50::int) < 2 ^ 256" "(0::int) \<le> 210" "(210::int) < 2 ^ 256"
    "(1::int) \<in> {0, 1, 27, 28}"
    by simp_all
  have hx: "''0x'' @ hex_of_bytes (be_bytes32 50 @ be_bytes32 210
                                   @ be_bytes32 (if (1::int) < 27 then 1 + 27 else 1))
      = ''0x0000000000000000000000000000000000000000000000000000000000000032''
        @ ''00000000000000000000000000000000000000000000000000000000000000d2''
        @ ''000000000000000000000000000000000000000000000000000000000000001c''"
    by code_simp
  have dl: "\<lfloor>1700000000 :: rat\<rfloor> + SIGNATURE_EXPIRY_SECONDS toy_config = 1700003600"
    by (simp add: toy_config_def)
  have nx: "fst (get_next_nonce mgr0 fs0) = 1"
    by (simp add: get_next_nonce_def mgr0_def Let_def)
  show ?thesis
    using C7_create_signature [OF K A c p n d k sg rs, of fs0]
    by (simp only: hx dl nx)
qed

section \<open>Properties of the Publisher\<close>

subsection \<open>The deviation gate\<close>






subsection \<open>The deadline check\<close>

lemma process_missing:
  assumes "price_uint od = None \<or> signature od = None \<or> deadline od = None \<or> nonce od = None"
  shows "process_single_price_update threshold current_time onchain secid od = []"
  using assms
  by (cases "price_uint od"; cases "signature od"; cases "deadline od"; cases "nonce od")
     (simp_all add: process_single_price_update_def)

lemma process_present:
  assumes "price_uint od = Some p" and "signature od = Some sg"
    and "deadline od = Some dl" and "nonce od = Some nc"
  shows "process_single_price_update threshold current_time onchain secid od =
           (case onchain of
              Inl e \<Rightarrow> []
            | Inr cur \<Rightarrow>
                if should_update_price threshold p cur
                then (case prepare_signature sg of
                        Inl e \<Rightarrow> []
                      | Inr bs \<Rightarrow> if dl \<le> current_time then [] else [(secid, p, dl, nc, bs)])
                else [])"
  using assms by (simp add: process_single_price_update_def)

lemma process_cases:
  obtains (skipped) "process_single_price_update threshold current_time onchain secid od = []"
  | (sent) p sg dl nc bs where
      "price_uint od = Some p" "signature od = Some sg" "deadline od = Some dl"
      "nonce od = Some nc" "prepare_signature sg = Inr bs" "current_time < dl"
      "process_single_price_update threshold current_time onchain secid od
         = [(secid, p, dl, nc, bs)]"
proof (cases "price_uint od = None \<or> signature od = None \<or> deadline od = None \<or> nonce od = None")
  case True
  then show ?thesis using skipped process_missing by blast
next
  case False
  then obtain p sg dl nc where v: "price_uint od = Some p" "signature od = Some sg"
    "deadline od = Some dl" "nonce od = Some nc"
    by auto
  note r = process_present [OF v, of threshold current_time onchain secid]
  show ?thesis
  proof (cases onchain)
    case (Inl e)
    then show ?thesis using r skipped by simp
  next
    case (Inr cur)
    show ?thesis
    proof (cases "should_update_price threshold p cur")
      case False
      then show ?thesis using r Inr skipped by simp
    next
      case True
      show ?thesis
      proof (cases "prepare_signature sg")
        case (Inl e)
        then show ?thesis using r Inr True skipped by simp
      next
        case ps: (Inr bs)
        show ?thesis
        proof (cases "dl \<le> current_time")
          case True
          then show ?thesis using r Inr \<open>should_update_price threshold p cur\<close> ps skipped by simp
        next
          case False
          then have "process_single_price_update threshold current_time onchain secid od
                      = [(secid, p, dl, nc, bs)]"
            using r Inr \<open>should_update_price threshold p cur\<close> ps by simp
          moreover have "current_time < dl" using False by simp
          ultimately show ?thesis using sent [OF v ps] by blast
        qed
      qed
    qed
  qed
qed

lemma process_expired:
  assumes "deadline od = Some dl" and "dl \<le> current_time"
  shows "process_single_price_update threshold current_time onchain secid od = []"
proof (cases rule: process_cases [of threshold current_time onchain secid od])
  case skipped
  then show ?thesis .
next
  case (sent p sg dl' nc bs)
  then show ?thesis using assms by simp
qed

text \<open>
  C9. A run of \<open>process_single_price_update\<close> makes at most one call of
  \<open>send_update_price_transaction\<close>. If the attestation's deadline is at or before the
  current time at the check, it makes none. Every call it makes carries the secid and
  exactly the \<open>price_uint\<close>, \<open>deadline\<close> and \<open>nonce\<close> of the attestation and the bytes
  of its \<open>signature\<close>, and its deadline is strictly after the current time.
\<close>

theorem C9_expired_never_sent:
  "length (process_single_price_update threshold current_time onchain secid od) \<le> 1
   \<and> (\<forall>dl. deadline od = Some dl \<and> dl \<le> current_time
          \<longrightarrow> process_single_price_update threshold current_time onchain secid od = [])
   \<and> (\<forall>tx \<in> set (process_single_price_update threshold current_time onchain secid od).
          \<exists>p sg dl nc bs.
            price_uint od = Some p \<and> signature od = Some sg \<and> deadline od = Some dl
          \<and> nonce od = Some nc \<and> prepare_signature sg = Inr bs
          \<and> tx = (secid, p, dl, nc, bs) \<and> current_time < dl)"
proof (cases rule: process_cases [of threshold current_time onchain secid od])
  case skipped
  then show ?thesis by simp
next
  case (sent p sg dl nc bs)
  have "length (process_single_price_update threshold current_time onchain secid od) \<le> 1"
    using sent(7) by simp
  moreover have "\<forall>dl. deadline od = Some dl \<and> dl \<le> current_time
          \<longrightarrow> process_single_price_update threshold current_time onchain secid od = []"
    using process_expired by blast
  moreover have "\<forall>tx \<in> set (process_single_price_update threshold current_time onchain secid od).
          \<exists>p sg dl nc bs.
            price_uint od = Some p \<and> signature od = Some sg \<and> deadline od = Some dl
          \<and> nonce od = Some nc \<and> prepare_signature sg = Inr bs
          \<and> tx = (secid, p, dl, nc, bs) \<and> current_time < dl"
    unfolding sent(7) using sent(1-6) by simp
  ultimately show ?thesis by blast
qed

text \<open>
  An attestation at price 97125000 against an on-chain price of 0: sent unchanged while
  the deadline is ahead, dropped once the deadline has passed.
\<close>

theorem C9_expired_never_sent_witness:
  "process_single_price_update 1 1999 (Inr (Some 0)) ''SU26207RMFS9''
      \<lparr>price_uint = Some 97125000, signature = Some ''0x1b2c'', deadline = Some 2000,
       nonce = Some 5\<rparr>
     = [(''SU26207RMFS9'', 97125000, 2000, 5, [27, 44])]
   \<and> process_single_price_update 1 2000 (Inr (Some 0)) ''SU26207RMFS9''
      \<lparr>price_uint = Some 97125000, signature = Some ''0x1b2c'', deadline = Some 2000,
       nonce = Some 5\<rparr>
     = []"
proof -
  let ?od = "\<lparr>price_uint = Some 97125000, signature = Some ''0x1b2c'', deadline = Some 2000,
       nonce = Some 5\<rparr>"
  have sent: "process_single_price_update 1 1999 (Inr (Some 0)) ''SU26207RMFS9'' ?od
     = [(''SU26207RMFS9'', 97125000, 2000, 5, [27, 44])]"
    by (simp add: process_single_price_update_def should_update_price_def prepare_signature_def
        hex_val_def is_space_def)
  have "deadline ?od = Some 2000 \<and> (2000::int) \<le> 2000" by simp
  then have "process_single_price_update 1 2000 (Inr (Some 0)) ''SU26207RMFS9'' ?od = []"
    using C9_expired_never_sent [of 1 2000 "Inr (Some 0)" "''SU26207RMFS9''" ?od] by blast
  with sent show ?thesis by simp
qed

section \<open>Properties of the HTTPFront\<close>

subsection \<open>Scaling to \<open>price_uint\<close>\<close>

text \<open>
  C2. With a scaling factor of 100000000 and a price of 97.125 on a cold cache, the
  single-entry endpoint serves \<open>round(p * 1000) * (S / 1000) = 9712500000\<close>, but the
  whole-snapshot endpoint scales by 100 and serves \<open>round(p * 100) * (S / 100) =
  9712000000\<close> for the same price.
\<close>

theorem C2_endpoints_scale_differently:
  "fst (get_all_prices toy_crypto toy_config mx_one 1000 False st_cold)
     = SnapshotResponse
         \<lparr>timestamp = 1000,
          prices = [(''SU26207RMFS9'',
                     [(''price'', JFloat (777 / 8)), (''price_uint'', JInt 9712000000),
                      (''is_current_market_data'', JBool True),
                      (''data_source'', JStr ''market_price'')])]\<rparr>
   \<and> fst (get_price_for_secid toy_crypto toy_config mx_one 1000 False ''SU26207RMFS9'' st_cold)
     = EntryResponse 1000
         [(''price'', JFloat (777 / 8)), (''price_uint'', JInt 9712500000),
          (''is_current_market_data'', JBool True),
          (''data_source'', JStr ''market_price'')]
   \<and> round_half_even (777 / 8 * 1000) * (PRICE_SCALING_FACTOR toy_config div 1000) = 9712500000"
  by code_simp

subsection \<open>Signature visibility\<close>




lemma without_signature_id:
  "''signature'' \<notin> fst ` set e \<Longrightarrow> without_signature e = e"
  unfolding without_signature_def by (induction e) auto


lemma get_price_for_secid_hit:
  assumes "get_cached_data (CACHE_TTL cfg) now (price_cache st) = Inr (Some cd)"
    and "map_of (prices cd) secid = Some e"
  shows "get_price_for_secid cr cfg mx now with_signature secid st =
           (EntryResponse (timestamp cd) (if with_signature then e else without_signature e), st)"
  using assms without_signature_id [of e]
  by (simp add: get_price_for_secid_def)





subsection \<open>Signed requests on a cache hit\<close>

lemma dict_set_subset: "set (dict_set k v al) \<subseteq> insert (k, v) (set al)"
  by (induction al) (auto split: if_splits)

lemma make_price_info_unsigned: "unsigned_only (make_price_info pr pu c)"
  by (simp add: unsigned_only_def make_price_info_def)

lemma price_loop_unsigned:
  assumes "price_loop cr cfg mx now False secids acc mgr fs = (Inr ps, mgr', fs')"
    and "\<forall>x \<in> set acc. unsigned_only (snd x)"
  shows "(\<forall>x \<in> set ps. unsigned_only (snd x)) \<and> mgr' = mgr \<and> fs' = fs"
  using assms
proof (induction secids arbitrary: acc)
  case Nil
  then show ?case by simp
next
  case (Cons secid rest)
  show ?case
  proof (cases "quote mx secid")
    case (Inl e)
    then show ?thesis using Cons.prems(1) by simp
  next
    case q: (Inr ex)
    show ?thesis
    proof (cases "get_price ex")
      case (Inl e)
      then show ?thesis using Cons.prems(1) q by simp
    next
      case (Inr res)
      obtain po is_current where res: "res = (po, is_current)" by (cases res) auto
      show ?thesis
      proof (cases "po = None \<or> po = Some 0")
        case True
        then have "price_loop cr cfg mx now False rest acc mgr fs = (Inr ps, mgr', fs')"
          using Cons.prems(1) q Inr res by auto
        then show ?thesis using Cons.IH Cons.prems(2) by blast
      next
        case False
        then obtain pr where pr: "po = Some pr" "pr \<noteq> 0" by auto
        let ?acc = "dict_set secid
                      (make_price_info pr (price_uint_all_prices cfg pr) is_current) acc"
        have step: "price_loop cr cfg mx now False rest ?acc mgr fs = (Inr ps, mgr', fs')"
          using Cons.prems(1) q Inr res pr by (simp add: Let_def)
        have "\<forall>x \<in> set ?acc. unsigned_only (snd x)"
          using Cons.prems(2) dict_set_subset [of secid _ acc] make_price_info_unsigned
          by fastforce
        then show ?thesis using Cons.IH [OF step] by blast
      qed
    qed
  qed
qed

lemma get_all_prices_miss_unsigned:
  assumes "get_cached_data (CACHE_TTL cfg) t0 (price_cache st) = Inr None"
    and "cache_writable st"
    and "get_all_prices cr cfg mx t0 False st = (SnapshotResponse snap, st')"
  shows "price_cache st' = CacheFile t0 (ReadJson snap)
       \<and> signer_nonces st' = signer_nonces st \<and> signer_files st' = signer_files st
       \<and> (\<forall>x \<in> set (prices snap). unsigned_only (snd x))"
proof -
  obtain secids where l: "ofz_list mx = Inr secids"
    using assms by (cases "ofz_list mx") (auto simp: get_all_prices_def)
  obtain res m f where pl: "price_loop cr cfg mx t0 False secids []
       (signer_nonces st) (signer_files st) = (res, m, f)"
    by (cases "price_loop cr cfg mx t0 False secids [] (signer_nonces st) (signer_files st)") auto
  obtain ps where r: "res = Inr ps"
    using assms l pl by (cases res) (auto simp: get_all_prices_def)
  have u: "(\<forall>x \<in> set ps. unsigned_only (snd x)) \<and> m = signer_nonces st \<and> f = signer_files st"
    using price_loop_unsigned [of cr cfg mx t0 secids "[]"] pl r by simp
  have "snap = \<lparr>timestamp = \<lfloor>t0\<rfloor>, prices = ps\<rparr>"
    and "st' = st\<lparr>signer_nonces := m, signer_files := f,
                   price_cache := CacheFile t0 (ReadJson \<lparr>timestamp = \<lfloor>t0\<rfloor>, prices = ps\<rparr>)\<rparr>"
    using assms l pl r by (auto simp: get_all_prices_def Let_def)
  then show ?thesis using u by simp
qed

text \<open>
  C10. On a cache hit that holds the SECID, \<open>GET /api/prices/{secid}?sign=true\<close> answers
  exactly the cached entry with the cached timestamp and leaves the provider's state as
  it was: no nonce is taken and nothing is signed. In particular, when the cache was
  filled by a request to \<open>GET /api/prices\<close> without \<open>sign\<close>, a request with \<open>sign\<close>
  that arrives within the TTL gets an entry with no \<open>signature\<close>, \<open>nonce\<close> or
  \<open>deadline\<close> member.
\<close>

theorem C10_cache_hit_serves_cached:
  "(\<forall>cd e. get_cached_data (CACHE_TTL cfg) now (price_cache st) = Inr (Some cd)
            \<and> map_of (prices cd) secid = Some e
        \<longrightarrow> get_price_for_secid cr cfg mx now True secid st = (EntryResponse (timestamp cd) e, st))
   \<and> (\<forall>t0 st0 snap e.
          get_cached_data (CACHE_TTL cfg) t0 (price_cache st0) = Inr None
          \<and> cache_writable st0
          \<and> get_all_prices cr cfg mx t0 False st0 = (SnapshotResponse snap, st)
          \<and> now - t0 \<le> of_int (CACHE_TTL cfg)
          \<and> map_of (prices snap) secid = Some e
        \<longrightarrow> get_price_for_secid cr cfg mx now True secid st = (EntryResponse (timestamp snap) e, st)
            \<and> ''signature'' \<notin> fst ` set e \<and> ''nonce'' \<notin> fst ` set e
            \<and> ''deadline'' \<notin> fst ` set e)"
proof (intro conjI allI impI)
  fix cd e
  assume "get_cached_data (CACHE_TTL cfg) now (price_cache st) = Inr (Some cd)
            \<and> map_of (prices cd) secid = Some e"
  then show "get_price_for_secid cr cfg mx now True secid st = (EntryResponse (timestamp cd) e, st)"
    using get_price_for_secid_hit [of cfg now st cd secid e cr mx True] by simp
next
  fix t0 st0 snap e
  assume h: "get_cached_data (CACHE_TTL cfg) t0 (price_cache st0) = Inr None
          \<and> cache_writable st0
          \<and> get_all_prices cr cfg mx t0 False st0 = (SnapshotResponse snap, st)
          \<and> now - t0 \<le> of_int (CACHE_TTL cfg)
          \<and> map_of (prices snap) secid = Some e"
  then have m: "price_cache st = CacheFile t0 (ReadJson snap)"
    and u: "\<forall>x \<in> set (prices snap). unsigned_only (snd x)"
    using get_all_prices_miss_unsigned [of cfg t0 st0 cr mx snap st] by auto
  have c: "get_cached_data (CACHE_TTL cfg) now (price_cache st) = Inr (Some snap)"
    using h m by (simp add: get_cached_data_def)
  have e: "(secid, e) \<in> set (prices snap)" using h by (auto dest: map_of_SomeD)
  then have ue: "unsigned_only e" using u by fastforce
  show "get_price_for_secid cr cfg mx now True secid st = (EntryResponse (timestamp snap) e, st)"
    using get_price_for_secid_hit [OF c, of secid e cr mx True] h by simp
  show "''signature'' \<notin> fst ` set e" using ue by (simp add: unsigned_only_def)
  show "''nonce'' \<notin> fst ` set e" using ue by (simp add: unsigned_only_def)
  show "''deadline'' \<notin> fst ` set e" using ue by (simp add: unsigned_only_def)
qed

theorem C10_cache_hit_serves_cached_witness:
  "get_price_for_secid toy_crypto toy_config mx_one 1003 True ''SU26207'' st_unsigned
     = (EntryResponse 1000 unsigned_entry, st_unsigned)
   \<and> get_price_for_secid toy_crypto toy_config mx_one 1005 True ''SU26207RMFS9''
       (snd (get_all_prices toy_crypto toy_config mx_one 1000 False st_cold))
     = (EntryResponse 1000
          [(''price'', JFloat (777 / 8)), (''price_uint'', JInt 9712000000),
           (''is_current_market_data'', JBool True),
           (''data_source'', JStr ''market_price'')],
        snd (get_all_prices toy_crypto toy_config mx_one 1000 False st_cold))"
proof -
  let ?cd = "\<lparr>timestamp = 1000, prices = [(''SU26207'', unsigned_entry)]\<rparr>"
  let ?e = "[(''price'', JFloat (777 / 8)), (''price_uint'', JInt 9712000000),
             (''is_current_market_data'', JBool True),
             (''data_source'', JStr ''market_price'')]"
  let ?snap = "\<lparr>timestamp = 1000, prices = [(''SU26207RMFS9'', ?e)]\<rparr>"
  let ?st = "snd (get_all_prices toy_crypto toy_config mx_one 1000 False st_cold)"
  have h1: "get_cached_data (CACHE_TTL toy_config) 1003 (price_cache st_unsigned) = Inr (Some ?cd)
             \<and> map_of (prices ?cd) ''SU26207'' = Some unsigned_entry"
    by (simp add: get_cached_data_def toy_config_def st_unsigned_def)
  have a: "get_price_for_secid toy_crypto toy_config mx_one 1003 True ''SU26207'' st_unsigned
     = (EntryResponse 1000 unsigned_entry, st_unsigned)"
    using C10_cache_hit_serves_cached [of toy_config 1003 st_unsigned "''SU26207''"
        toy_crypto mx_one] h1
    by fastforce
  have r: "fst (get_all_prices toy_crypto toy_config mx_one 1000 False st_cold)
             = SnapshotResponse ?snap"
    by code_simp
  have h2: "get_cached_data (CACHE_TTL toy_config) 1000 (price_cache st_cold) = Inr None
          \<and> cache_writable st_cold
          \<and> get_all_prices toy_crypto toy_config mx_one 1000 False st_cold
              = (SnapshotResponse ?snap, ?st)
          \<and> (1005::rat) - 1000 \<le> of_int (CACHE_TTL toy_config)
          \<and> map_of (prices ?snap) ''SU26207RMFS9'' = Some ?e"
    using r by (simp add: get_cached_data_def toy_config_def st_cold_def prod_eq_iff)
  have b: "get_price_for_secid toy_crypto toy_config mx_one 1005 True ''SU26207RMFS9'' ?st
     = (EntryResponse 1000 ?e, ?st)"
    using C10_cache_hit_serves_cached [of toy_config 1005 ?st "''SU26207RMFS9''"
        toy_crypto mx_one] h2
    by fastforce
  show ?thesis using a b by simp
qed

end
